theory Spec2Isabelle
  imports Main
begin

section \<open>Python values\<close>

text \<open>
  The script is Python. Values that come out of \<^verbatim>\<open>json.loads\<close> or out of the account
  configuration are modelled by one datatype. A \<^verbatim>\<open>float\<close> is an IEEE binary64 number:
  \<open>Finite s m e\<close> stands for \<open>(-1)^s * m * 2^e\<close>. A \<^verbatim>\<open>dict\<close> is an association list
  in insertion order whose keys are looked up with \<open>map_of\<close>.
\<close>

datatype pyfloat = Finite bool nat int | Infinite bool | NaN

datatype pyvalue =
    PNone
  | PBool bool
  | PInt int
  | PFloat pyfloat
  | PStr string
  | PList "pyvalue list"
  | PDict "(string \<times> pyvalue) list"

type_synonym pydict = "(string \<times> pyvalue) list"

datatype exc_class =
    NameError | AttributeError | TypeError | OverflowError | ZeroDivisionError
  | JSONDecodeError | OtherError string

text \<open>An instance of a subclass of \<^verbatim>\<open>Exception\<close>: its class and the text \<^verbatim>\<open>str(e)\<close>.\<close>

datatype error = Error (exc_class: exc_class) (exc_text: string)

definition bindE :: "error + 'a \<Rightarrow> ('a \<Rightarrow> error + 'b) \<Rightarrow> error + 'b" where
  "bindE r f = (case r of Inl e \<Rightarrow> Inl e | Inr v \<Rightarrow> f v)"

definition quoted :: "string \<Rightarrow> string" where
  "quoted s = CHR 0x27 # s @ [CHR 0x27]"

fun type_name :: "pyvalue \<Rightarrow> string" where
  "type_name PNone = ''NoneType''"
| "type_name (PBool _) = ''bool''"
| "type_name (PInt _) = ''int''"
| "type_name (PFloat _) = ''float''"
| "type_name (PStr _) = ''str''"
| "type_name (PList _) = ''list''"
| "type_name (PDict _) = ''dict''"

fun is_zero :: "pyfloat \<Rightarrow> bool" where
  "is_zero (Finite s m e) = (m = 0)"
| "is_zero (Infinite s) = False"
| "is_zero NaN = False"

text \<open>Truth value testing, as \<^verbatim>\<open>if x\<close>, \<^verbatim>\<open>not x\<close> and \<^verbatim>\<open>or\<close> apply it.\<close>

fun truthy :: "pyvalue \<Rightarrow> bool" where
  "truthy PNone = False"
| "truthy (PBool b) = b"
| "truthy (PInt i) = (i \<noteq> 0)"
| "truthy (PFloat x) = (\<not> is_zero x)"
| "truthy (PStr s) = (s \<noteq> [])"
| "truthy (PList xs) = (xs \<noteq> [])"
| "truthy (PDict d) = (d \<noteq> [])"

text \<open>\<^verbatim>\<open>v == n\<close> for an \<^verbatim>\<open>int\<close> literal \<open>n\<close>: numbers compare by value, a \<^verbatim>\<open>bool\<close> is the
  integer 0 or 1, nothing else equals an integer.\<close>

fun float_eq_int :: "pyfloat \<Rightarrow> int \<Rightarrow> bool" where
  "float_eq_int (Finite s m e) n =
     (if e \<ge> 0 then (if s then - int m * 2 ^ nat e else int m * 2 ^ nat e) = n
      else (if s then - int m else int m) = n * 2 ^ nat (- e))"
| "float_eq_int (Infinite s) n = False"
| "float_eq_int NaN n = False"

fun py_eq_int :: "pyvalue \<Rightarrow> int \<Rightarrow> bool" where
  "py_eq_int (PInt i) n = (i = n)"
| "py_eq_int (PBool b) n = ((if b then 1 else 0) = n)"
| "py_eq_int (PFloat x) n = float_eq_int x n"
| "py_eq_int _ n = False"

text \<open>\<^verbatim>\<open>d.get(key, default)\<close>: only a \<^verbatim>\<open>dict\<close> has the method.\<close>

definition get_default :: "pydict \<Rightarrow> string \<Rightarrow> pyvalue \<Rightarrow> pyvalue" where
  "get_default m k dflt = (case map_of m k of Some v \<Rightarrow> v | None \<Rightarrow> dflt)"

definition dict_get :: "pyvalue \<Rightarrow> string \<Rightarrow> pyvalue \<Rightarrow> error + pyvalue" where
  "dict_get d k dflt =
     (case d of
        PDict m \<Rightarrow> Inr (get_default m k dflt)
      | _ \<Rightarrow> Inl (Error AttributeError
                 (quoted (type_name d) @ '' object has no attribute '' @ quoted ''get'')))"

text \<open>\<^verbatim>\<open>d[k] = v\<close>: an existing key keeps its position, a new key goes last.\<close>

fun dict_set :: "'k \<Rightarrow> 'v \<Rightarrow> ('k \<times> 'v) list \<Rightarrow> ('k \<times> 'v) list" where
  "dict_set k v [] = [(k, v)]"
| "dict_set k v (p # ps) = (if fst p = k then (k, v) # ps else p # dict_set k v ps)"

text \<open>\<^verbatim>\<open>d.update(other)\<close> and the second half of \<^verbatim>\<open>{**d, **other}\<close>: the items of
  \<open>other\<close> are stored one by one, in order.\<close>

definition dict_update :: "('k \<times> 'v) list \<Rightarrow> ('k \<times> 'v) list \<Rightarrow> ('k \<times> 'v) list" where
  "dict_update d other = fold (\<lambda>(k, v) acc. dict_set k v acc) other d"

section \<open>Cookie parsing and assembly\<close>

definition py_isspace :: "char \<Rightarrow> bool" where
  "py_isspace c = ((of_char c :: nat) \<in> {9, 10, 11, 12, 13, 28, 29, 30, 31, 32, 133, 160})"

definition strip :: "string \<Rightarrow> string" where
  "strip s = rev (dropWhile py_isspace (rev (dropWhile py_isspace s)))"

fun split_on :: "char \<Rightarrow> string \<Rightarrow> string list" where
  "split_on c [] = [[]]"
| "split_on c (x # xs) =
     (if x = c then [] # split_on c xs
      else (case split_on c xs of w # ws \<Rightarrow> (x # w) # ws | [] \<Rightarrow> [[x]]))"

text \<open>One turn of the loop of \<^verbatim>\<open>parse_cookies\<close>: a segment without \<^verbatim>\<open>=\<close> is skipped,
  any other is stripped and cut at its first \<^verbatim>\<open>=\<close>.\<close>

definition parse_cookie_segment :: "string \<Rightarrow> pydict \<Rightarrow> pydict" where
  "parse_cookie_segment cookie cookies_dict =
     (if CHR ''='' \<in> set cookie
      then (let s = strip cookie;
                key = takeWhile (\<lambda>c. c \<noteq> CHR ''='') s;
                val = tl (dropWhile (\<lambda>c. c \<noteq> CHR ''='') s)
            in dict_set key (PStr val) cookies_dict)
      else cookies_dict)"

fun parse_cookies :: "pyvalue \<Rightarrow> pydict" where
  "parse_cookies (PDict d) = d"
| "parse_cookies (PStr s) = fold parse_cookie_segment (split_on CHR '';'' s) []"
| "parse_cookies _ = []"

text \<open>The expression \<^verbatim>\<open>{**waf_cookies, **user_cookies}\<close> of \<^verbatim>\<open>prepare_cookies\<close>.\<close>

definition merge_cookies :: "pydict \<Rightarrow> pydict \<Rightarrow> pydict" where
  "merge_cookies waf_cookies user_cookies = dict_update (dict_update [] waf_cookies) user_cookies"

section \<open>Float arithmetic\<close>

text \<open>
  \<^verbatim>\<open>x / 500000\<close> and \<^verbatim>\<open>round(x, 2)\<close> produce binary64 floats. Both are correctly
  rounded in CPython: the quotient of two \<^verbatim>\<open>int\<close>s is the double nearest to the exact
  quotient (\<^verbatim>\<open>OverflowError\<close> when it is out of range), and \<^verbatim>\<open>round\<close> takes the
  exact value of the double to the nearest multiple of \<open>1/100\<close> (ties to even) and returns
  the double nearest to that decimal.
\<close>

definition round_half_even :: "nat \<Rightarrow> nat \<Rightarrow> nat" where
  "round_half_even p q =
     (let d = p div q; r = p mod q
      in if 2 * r < q then d
         else if q < 2 * r then d + 1
         else if even d then d else d + 1)"

text \<open>\<^verbatim>\<open>n.bit_length()\<close>: the number of binary digits of \<open>n\<close>.\<close>

fun bit_length :: "nat \<Rightarrow> int" where
  "bit_length n = (if n = 0 then 0 else 1 + bit_length (n div 2))"

declare bit_length.simps [simp del]

text \<open>The integer \<open>e\<close> with \<open>2^e \<le> p/q < 2^(e+1)\<close>, for positive \<open>p\<close> and \<open>q\<close>.\<close>

definition floor_log2 :: "nat \<Rightarrow> nat \<Rightarrow> int" where
  "floor_log2 p q =
     (let d = bit_length p - bit_length q
      in if (if 0 \<le> d then q * 2 ^ nat d \<le> p else q \<le> p * 2 ^ nat (- d)) then d else d - 1)"

text \<open>The double nearest to \<open>(-1)^s * p/q\<close> (ties to even, subnormals below \<open>2^-1022\<close>);
  \<open>None\<close> when the rounded magnitude reaches \<open>2^1024\<close>.\<close>

definition nearest_double :: "bool \<Rightarrow> nat \<Rightarrow> nat \<Rightarrow> pyfloat option" where
  "nearest_double s p q =
     (if p = 0 then Some (Finite s 0 0)
      else
        (let e = max (floor_log2 p q) (- 1022);
             t = e - 52;
             m = (if 0 \<le> t then round_half_even p (q * 2 ^ nat t)
                  else round_half_even (p * 2 ^ nat (- t)) q)
         in if 1023 < e \<or> (e = 1023 \<and> m = 2 ^ 53) then None else Some (Finite s m t)))"

definition int_truediv :: "int \<Rightarrow> int \<Rightarrow> error + pyfloat" where
  "int_truediv a b =
     (if b = 0 then Inl (Error ZeroDivisionError ''division by zero'')
      else (case nearest_double ((a < 0) \<noteq> (b < 0)) (nat \<bar>a\<bar>) (nat \<bar>b\<bar>) of
              None \<Rightarrow> Inl (Error OverflowError ''integer division result too large for a float'')
            | Some x \<Rightarrow> Inr x))"

text \<open>\<^verbatim>\<open>float(b)\<close> for the \<^verbatim>\<open>int\<close> operand of a mixed division.\<close>

definition float_of_int :: "int \<Rightarrow> error + pyfloat" where
  "float_of_int b =
     (case nearest_double (b < 0) (nat \<bar>b\<bar>) 1 of
        None \<Rightarrow> Inl (Error OverflowError ''int too large to convert to float'')
      | Some x \<Rightarrow> Inr x)"

text \<open>IEEE division of two doubles; Python raises only for a zero divisor.\<close>

fun float_div :: "pyfloat \<Rightarrow> pyfloat \<Rightarrow> error + pyfloat" where
  "float_div x (Finite sb mb eb) =
     (if mb = 0 then Inl (Error ZeroDivisionError ''float division by zero'')
      else (case x of
              NaN \<Rightarrow> Inr NaN
            | Infinite sa \<Rightarrow> Inr (Infinite (sa \<noteq> sb))
            | Finite sa ma ea \<Rightarrow>
                (case nearest_double (sa \<noteq> sb)
                        (ma * 2 ^ nat (ea - eb)) (mb * 2 ^ nat (eb - ea)) of
                   None \<Rightarrow> Inr (Infinite (sa \<noteq> sb))
                 | Some y \<Rightarrow> Inr y)))"
| "float_div x (Infinite sb) =
     (case x of Finite sa ma ea \<Rightarrow> Inr (Finite (sa \<noteq> sb) 0 0) | _ \<Rightarrow> Inr NaN)"
| "float_div x NaN = Inr NaN"

text \<open>\<^verbatim>\<open>v / b\<close> for a decoded value \<open>v\<close> and an \<^verbatim>\<open>int\<close> \<open>b\<close>.\<close>

fun truediv :: "pyvalue \<Rightarrow> int \<Rightarrow> error + pyfloat" where
  "truediv (PInt a) b = int_truediv a b"
| "truediv (PBool a) b = int_truediv (if a then 1 else 0) b"
| "truediv (PFloat x) b = bindE (float_of_int b) (float_div x)"
| "truediv v b =
     Inl (Error TypeError (''unsupported operand type(s) for /: '' @ quoted (type_name v)
            @ '' and '' @ quoted ''int''))"

text \<open>\<^verbatim>\<open>round(x, 2)\<close> for a \<^verbatim>\<open>float\<close> \<open>x\<close>.\<close>

fun py_round2 :: "pyfloat \<Rightarrow> pyfloat" where
  "py_round2 (Finite s m e) =
     (if 0 \<le> e then Finite s m e
      else (case nearest_double s (round_half_even (m * 100) (2 ^ nat (- e))) 100 of
              Some y \<Rightarrow> y
            | None \<Rightarrow> Finite s m e))"
| "py_round2 (Infinite s) = Infinite s"
| "py_round2 NaN = NaN"

declare py_round2.simps [simp del]

text \<open>\<^verbatim>\<open>round(v / 500000, 2)\<close>, the normalisation of a raw quota.\<close>

definition normalize :: "pyvalue \<Rightarrow> error + pyfloat" where
  "normalize v = bindE (truediv v 500000) (\<lambda>x. Inr (py_round2 x))"

section \<open>HTTP responses and the user-info request\<close>

text \<open>
  What the script reads of an \<^verbatim>\<open>httpx\<close> response: the status code, the outcome of
  \<^verbatim>\<open>response.json()\<close> (the decoded value, or the exception it raises) and
  \<^verbatim>\<open>response.text\<close>.
\<close>

record response =
  status_code :: int
  json :: "error + pyvalue"
  body_text :: string

text \<open>
  The strings the script builds have fixed Chinese text around the values they show, so
  each template is a constructor and its arguments are the interpolated values.
  \<open>BalanceLine quota used\<close> is the line showing both amounts after a dollar sign,
  \<open>BalanceUnavailable\<close> the line saying that balance information is not available for now.
  \<open>HttpStatus n\<close> is the error text ending in \<^verbatim>\<open>HTTP n\<close>; \<open>ExceptionText s\<close> is the error
  text that shows \<open>s\<close> followed by three dots.
\<close>

datatype display = BalanceLine pyfloat pyfloat | BalanceUnavailable

datatype info_error = HttpStatus int | ExceptionText string

text \<open>
  The string each of the two stands for, as the list of its code points: the text of line
  161 is eight Chinese characters, a colon, a space and \<^verbatim>\<open>HTTP\<close> with the status; the
  text of line 163 is eight Chinese characters, a colon and a space, then the shown part of
  \<^verbatim>\<open>str(e)\<close>, then three dots.
\<close>

definition codepoints :: "string \<Rightarrow> nat list" where
  "codepoints s = map of_char s"

fun str_nat :: "nat \<Rightarrow> string" where
  "str_nat n =
     (if n < 10 then [char_of (48 + n)] else str_nat (n div 10) @ [char_of (48 + n mod 10)])"

declare str_nat.simps [simp del]

definition str_int :: "int \<Rightarrow> string" where
  "str_int i = (if i < 0 then CHR ''-'' # str_nat (nat (- i)) else str_nat (nat i))"

definition failure_prefix :: "nat list" where
  "failure_prefix = [33719, 21462, 29992, 25143, 20449, 24687, 22833, 36133, 58, 32]"

definition exception_prefix :: "nat list" where
  "exception_prefix = [33719, 21462, 29992, 25143, 20449, 24687, 24322, 24120, 58, 32]"

fun error_string :: "info_error \<Rightarrow> nat list" where
  "error_string (HttpStatus n) = failure_prefix @ codepoints (''HTTP '' @ str_int n)"
| "error_string (ExceptionText s) = exception_prefix @ codepoints s @ codepoints ''...''"

text \<open>The dictionary \<^verbatim>\<open>get_user_info\<close> returns: with \<^verbatim>\<open>'success': True\<close> it has
  \<^verbatim>\<open>quota\<close>, \<^verbatim>\<open>used_quota\<close> and \<^verbatim>\<open>display\<close>, with \<^verbatim>\<open>'success': False\<close> it has
  \<^verbatim>\<open>error\<close>.\<close>

datatype balance_info =
    Balance (quota: pyfloat) (used_quota: pyfloat) (display: display)
  | Failure (error: info_error)

fun info_success :: "balance_info \<Rightarrow> bool" where
  "info_success (Balance q u d) = True"
| "info_success (Failure e) = False"

text \<open>\<^verbatim>\<open>data.get('status') in ('ok', 'success')\<close>.\<close>

definition status_ok :: "pyvalue \<Rightarrow> bool" where
  "status_ok st = (st = PStr ''ok'' \<or> st = PStr ''success'')"

text \<open>The branch for the first response format (\<^verbatim>\<open>if data.get('success')\<close>).\<close>

definition anyrouter_format :: "pyvalue \<Rightarrow> error + balance_info" where
  "anyrouter_format data =
     bindE (dict_get data ''data'' (PDict [])) (\<lambda>user_data.
     bindE (dict_get user_data ''quota'' (PInt 0)) (\<lambda>raw_quota.
     bindE (normalize raw_quota) (\<lambda>quota.
     bindE (dict_get user_data ''used_quota'' (PInt 0)) (\<lambda>raw_used.
     bindE (normalize raw_used) (\<lambda>used_quota.
     Inr (Balance quota used_quota (BalanceLine quota used_quota)))))))"

text \<open>The branch for the second response format (\<^verbatim>\<open>status\<close>/\<^verbatim>\<open>credit\<close>/\<^verbatim>\<open>usage\<close>).\<close>

definition agentrouter_format :: "pyvalue \<Rightarrow> error + balance_info" where
  "agentrouter_format data =
     bindE (dict_get data ''credit'' (PInt 0)) (\<lambda>credit.
     bindE (normalize credit) (\<lambda>quota.
     bindE (dict_get data ''usage'' (PInt 0)) (\<lambda>usage.
     bindE (normalize usage) (\<lambda>used_quota.
     Inr (Balance quota used_quota
            (if \<not> is_zero quota \<or> \<not> is_zero used_quota
             then BalanceLine quota used_quota else BalanceUnavailable))))))"

text \<open>The body of the \<^verbatim>\<open>try\<close> block of \<^verbatim>\<open>get_user_info\<close>. Its argument is the outcome
  of \<^verbatim>\<open>client.get\<close>: a response, or the exception the call raised.\<close>

definition get_user_info_try :: "error + response \<Rightarrow> error + balance_info" where
  "get_user_info_try got =
     bindE got (\<lambda>r.
       if status_code r = 200 then
         bindE (json r) (\<lambda>data.
         bindE (dict_get data ''success'' PNone) (\<lambda>success.
           if truthy success then anyrouter_format data
           else
             bindE (dict_get data ''status'' PNone) (\<lambda>st.
             bindE (dict_get data ''code'' PNone) (\<lambda>code.
               if status_ok st \<or> py_eq_int code 0 then agentrouter_format data
               else Inr (Failure (HttpStatus (status_code r)))))))
       else Inr (Failure (HttpStatus (status_code r))))"

text \<open>\<^verbatim>\<open>get_user_info\<close>: the \<^verbatim>\<open>except Exception\<close> clause turns an exception of the body
  into a failure that shows the first 50 characters of \<^verbatim>\<open>str(e)\<close>.\<close>

definition get_user_info :: "error + response \<Rightarrow> error + balance_info" where
  "get_user_info got =
     (case get_user_info_try got of
        Inl e \<Rightarrow> Inr (Failure (ExceptionText (take 50 (exc_text e))))
      | Inr info \<Rightarrow> Inr info)"

section \<open>Configuration, requests and the environment\<close>

text \<open>
  Modelled from the spec: \<^verbatim>\<open>utils/config.py\<close> (\<^verbatim>\<open>AccountConfig\<close>, \<^verbatim>\<open>AppConfig\<close>,
  \<^verbatim>\<open>load_accounts_config\<close>) is not among the sources. A provider has the fields the
  spec lists, with \<^verbatim>\<open>needs_waf_cookies()\<close> and \<^verbatim>\<open>needs_manual_check_in()\<close> as two
  booleans; an account has a provider id, a raw cookie payload and an API user id.
  \<^verbatim>\<open>get_display_name\<close> and \<^verbatim>\<open>get_provider\<close> are parameters of the environment.
\<close>

record provider_config =
  domain :: string
  login_path :: string
  user_info_path :: string
  sign_in_path :: string
  api_user_key :: string
  needs_waf_cookies :: bool
  needs_manual_check_in :: bool

record account_config =
  provider :: string
  cookies :: pyvalue
  api_user :: string

text \<open>An HTTP request as the script determines it: URL, headers, and the cookies of the
  client that sends it.\<close>

record request =
  req_url :: string
  req_headers :: "(string \<times> string) list"
  req_cookies :: pydict

text \<open>One row of the summary: account name, \<^verbatim>\<open>quota\<close> and \<^verbatim>\<open>used_quota\<close>.\<close>

type_synonym balance_row = "string \<times> pyfloat \<times> pyfloat"

text \<open>What \<^verbatim>\<open>send_dingtalk_message\<close> puts into its text: the rows and the three counts.\<close>

record notification =
  rows :: "balance_row list"
  n_success :: int
  n_fail :: int
  n_total :: int

text \<open>Every \<^verbatim>\<open>print\<close> of the script is a constructor; its arguments are the values the
  printed line shows.\<close>

datatype log_msg =
    WafStarting string
  | WafAccessLogin string
  | WafGot string nat
  | WafMissing string "string list"
  | WafSuccess string
  | WafError string error
  | WafUnable string
  | WafNotRequired string
  | CheckinExecuting string
  | CheckinResponse string int
  | CheckinSuccess string
  | CheckinFailedMsg string pyvalue
  | CheckinInvalidFormat string
  | CheckinFailedHttp string int
  | ProcessingStart string
  | ProviderNotFound string string
  | UsingProvider string string string
  | CookiesInvalid string
  | ShowDisplay display
  | NoBalanceInfo string
  | AutoCheckinDone string
  | CheckinException string error
  | SystemStart
  | TimeStamp
  | LoadAccountsFailed
  | DingNoWebhook
  | DingPushed
  | DingPushFailed int
  | DingPushError error
  | SaveHashWarning error
  | RunFailed error

text \<open>What a run does to the world outside, in order.\<close>

datatype event =
    Print log_msg
  | PlaywrightEnter
  | PlaywrightExit
  | TempDirEnter
  | TempDirExit
  | BrowserLaunch
  | PageGoto string
  | ContextClose
  | ClientOpen
  | ClientClose
  | HttpGet request
  | HttpPost request
  | WebhookPost string notification
  | FileStat string
  | FileOpen string
  | FileRead string
  | FileWrite string string

text \<open>
  The environment answers every call that leaves the script: the provider registry and the
  account list, the browser (the launch with \<^verbatim>\<open>new_page\<close>, then the visit of the login
  page that ends in the list of the context's cookies as name and value), the two HTTP
  calls, and the webhook. Two library functions are parameters as well:
  \<^verbatim>\<open>json.dumps(..., sort_keys=True, separators=(',', ':'))\<close> and the hexadecimal SHA-256
  digest of the UTF-8 encoding of a string.
\<close>

record env =
  get_provider :: "string \<Rightarrow> provider_config option"
  get_display_name :: "account_config \<Rightarrow> nat \<Rightarrow> string"
  load_accounts_config :: "account_config list option"
  browser_launch :: "error + unit"
  browser_cookies :: "string \<Rightarrow> error + (string \<times> string) list"
  http_get :: "request \<Rightarrow> error + response"
  http_post :: "request \<Rightarrow> error + response"
  webhook :: "string option"
  webhook_post :: "string \<Rightarrow> notification \<Rightarrow> error + int"
  json_dumps :: "pydict \<Rightarrow> string"
  sha256_hex :: "string \<Rightarrow> string"

section \<open>The balance digest helpers\<close>









text \<open>\<^verbatim>\<open>v['quota']\<close> for a decoded value \<open>v\<close>.\<close>

fun subscript :: "pyvalue \<Rightarrow> string \<Rightarrow> error + pyvalue" where
  "subscript (PDict d) k =
     (case map_of d k of
        Some v \<Rightarrow> Inr v
      | None \<Rightarrow> Inl (Error (OtherError ''KeyError'') (quoted k)))"
| "subscript (PStr s) k =
     Inl (Error TypeError (''string indices must be integers, not '' @ quoted ''str''))"
| "subscript (PList xs) k =
     Inl (Error TypeError ''list indices must be integers or slices, not str'')"
| "subscript v k =
     Inl (Error TypeError (quoted (type_name v) @ '' object is not subscriptable''))"

text \<open>The comprehension \<^verbatim>\<open>{k: v['quota'] for k, v in balances.items()}\<close>, item by item.\<close>

fun simple_balances :: "pydict \<Rightarrow> pydict \<Rightarrow> error + pydict" where
  "simple_balances [] acc = Inr acc"
| "simple_balances ((k, v) # items) acc =
     bindE (subscript v ''quota'') (\<lambda>q. simple_balances items (dict_set k q acc))"

text \<open>\<^verbatim>\<open>generate_balance_hash\<close>: the first 16 characters of the hexadecimal SHA-256 of the
  compact, key-sorted JSON of the name-to-quota mapping; a falsy argument counts as the
  empty mapping.\<close>

definition generate_balance_hash :: "env \<Rightarrow> pyvalue \<Rightarrow> error + string" where
  "generate_balance_hash en balances =
     bindE (if truthy balances then
              (case balances of
                 PDict m \<Rightarrow> simple_balances m []
               | _ \<Rightarrow> Inl (Error AttributeError
                            (quoted (type_name balances) @ '' object has no attribute ''
                               @ quoted ''items'')))
            else Inr [])
       (\<lambda>simple. Inr (take 16 (sha256_hex en (json_dumps en simple))))"

section \<open>WAF cookies\<close>

definition waf_names :: "string list" where
  "waf_names = [''acw_tc'', ''cdn_sec_tc'', ''acw_sc__v2'']"

text \<open>
  The keyword arguments of \<^verbatim>\<open>launch_persistent_context\<close> are evaluated before the call.
  One of them is the name \<^verbatim>\<open>true\<close>, which the module neither defines nor imports and
  which is no builtin, so the evaluation raises \<^verbatim>\<open>NameError\<close>.
\<close>

definition launch_arguments :: "error + unit" where
  "launch_arguments =
     Inl (Error NameError (''name '' @ quoted ''true'' @ '' is not defined''))"

text \<open>The loop over the context's cookies: a cookie with one of the three names and a
  non-empty value is kept.\<close>

definition harvest :: "(string \<times> string) list \<Rightarrow> pydict" where
  "harvest cs =
     fold (\<lambda>(name, val) waf_cookies.
             if name \<in> set waf_names \<and> val \<noteq> [] then dict_set name (PStr val) waf_cookies
             else waf_cookies) cs []"

text \<open>\<^verbatim>\<open>get_waf_cookies_with_playwright\<close>. The two \<^verbatim>\<open>with\<close> blocks are left on every
  path. The launch and \<^verbatim>\<open>new_page\<close> come before the \<^verbatim>\<open>try\<close>; what is raised from the
  visit of the page on is caught there.\<close>

definition get_waf_cookies_with_playwright ::
  "env \<Rightarrow> string \<Rightarrow> string \<Rightarrow> (error + pydict option) \<times> event list" where
  "get_waf_cookies_with_playwright en account_name login_url =
     (let entered = [Print (WafStarting account_name), PlaywrightEnter, TempDirEnter];
          left = [TempDirExit, PlaywrightExit]
      in case launch_arguments of
           Inl e \<Rightarrow> (Inl e, entered @ left)
         | Inr _ \<Rightarrow>
            (case browser_launch en of
               Inl e \<Rightarrow> (Inl e, entered @ [BrowserLaunch] @ left)
             | Inr _ \<Rightarrow>
                (let visiting = entered @ [BrowserLaunch, Print (WafAccessLogin account_name),
                                           PageGoto login_url]
                 in case browser_cookies en login_url of
                      Inl e \<Rightarrow>
                        (Inr None,
                         visiting @ [Print (WafError account_name e), ContextClose] @ left)
                    | Inr cs \<Rightarrow>
                        (let waf_cookies = harvest cs;
                             missing = filter (\<lambda>c. map_of waf_cookies c = None) waf_names
                         in if missing \<noteq> []
                            then (Inr None,
                                  visiting @ [Print (WafGot account_name (length waf_cookies)),
                                              Print (WafMissing account_name missing),
                                              ContextClose] @ left)
                            else (Inr (Some waf_cookies),
                                  visiting @ [Print (WafGot account_name (length waf_cookies)),
                                              Print (WafSuccess account_name),
                                              ContextClose] @ left)))))"

text \<open>\<^verbatim>\<open>prepare_cookies\<close>: \<open>None\<close> and the empty dictionary are both "not
  \<^verbatim>\<open>waf_cookies\<close>".\<close>

definition prepare_cookies ::
  "env \<Rightarrow> string \<Rightarrow> provider_config \<Rightarrow> pydict \<Rightarrow> (error + pydict option) \<times> event list" where
  "prepare_cookies en account_name provider_config user_cookies =
     (if needs_waf_cookies provider_config then
        (case get_waf_cookies_with_playwright en account_name
                (domain provider_config @ login_path provider_config) of
           (Inl e, tr) \<Rightarrow> (Inl e, tr)
         | (Inr None, tr) \<Rightarrow> (Inr None, tr @ [Print (WafUnable account_name)])
         | (Inr (Some waf_cookies), tr) \<Rightarrow>
             (if waf_cookies = [] then (Inr None, tr @ [Print (WafUnable account_name)])
              else (Inr (Some (merge_cookies waf_cookies user_cookies)), tr)))
      else (Inr (Some (merge_cookies [] user_cookies)), [Print (WafNotRequired account_name)]))"

section \<open>The check-in request\<close>

text \<open>\<^verbatim>\<open>str.lower()\<close> on the code points a \<open>char\<close> can hold, and \<^verbatim>\<open>sub in s\<close>.\<close>

definition lower_char :: "char \<Rightarrow> char" where
  "lower_char c =
     (let n = (of_char c :: nat)
      in if (65 \<le> n \<and> n \<le> 90) \<or> (192 \<le> n \<and> n \<le> 222 \<and> n \<noteq> 215)
         then char_of (n + 32) else c)"

definition lower :: "string \<Rightarrow> string" where
  "lower s = map lower_char s"

fun contains :: "string \<Rightarrow> string \<Rightarrow> bool" where
  "contains sub [] = (sub = [])"
| "contains sub (x # xs) = (take (length sub) (x # xs) = sub \<or> contains sub xs)"

text \<open>The test \<^verbatim>\<open>result.get('ret') == 1 or result.get('code') == 0 or
  result.get('success')\<close>, from left to right.\<close>

definition check_in_accepted :: "pyvalue \<Rightarrow> error + bool" where
  "check_in_accepted result =
     bindE (dict_get result ''ret'' PNone) (\<lambda>ret.
       if py_eq_int ret 1 then Inr True
       else bindE (dict_get result ''code'' PNone) (\<lambda>code.
         if py_eq_int code 0 then Inr True
         else bindE (dict_get result ''success'' PNone) (\<lambda>success. Inr (truthy success))))"

text \<open>What \<^verbatim>\<open>execute_check_in\<close> does with the response once it has it: the value it
  returns or the exception that leaves it, and the line it prints last.\<close>

definition check_in_result :: "string \<Rightarrow> response \<Rightarrow> (error + bool) \<times> event list" where
  "check_in_result account_name r =
     (if status_code r = 200 then
        (case json r of
           Inr result \<Rightarrow>
             (case check_in_accepted result of
                Inl e \<Rightarrow> (Inl e, [])
              | Inr True \<Rightarrow> (Inr True, [Print (CheckinSuccess account_name)])
              | Inr False \<Rightarrow>
                  (case dict_get result ''msg'' (PStr ''Unknown error'') of
                     Inl e \<Rightarrow> (Inl e, [])
                   | Inr msg \<Rightarrow> (Inr False, [Print (CheckinFailedMsg account_name msg)])))
         | Inl e \<Rightarrow>
             (if exc_class e = JSONDecodeError then
                (if contains ''success'' (lower (body_text r))
                 then (Inr True, [Print (CheckinSuccess account_name)])
                 else (Inr False, [Print (CheckinInvalidFormat account_name)]))
              else (Inl e, [])))
      else (Inr False, [Print (CheckinFailedHttp account_name (status_code r))]))"

text \<open>The POST of \<^verbatim>\<open>execute_check_in\<close>: the headers of the session with two more, sent
  to the sign-in URL by the client that holds the session cookies.\<close>

definition check_in_request ::
  "provider_config \<Rightarrow> (string \<times> string) list \<Rightarrow> pydict \<Rightarrow> request" where
  "check_in_request provider_config headers client_cookies =
     \<lparr>req_url = domain provider_config @ sign_in_path provider_config,
      req_headers = dict_update headers [(''Content-Type'', ''application/json''),
                                         (''X-Requested-With'', ''XMLHttpRequest'')],
      req_cookies = client_cookies\<rparr>"

definition execute_check_in ::
  "env \<Rightarrow> string \<Rightarrow> provider_config \<Rightarrow> (string \<times> string) list \<Rightarrow> pydict
     \<Rightarrow> (error + bool) \<times> event list" where
  "execute_check_in en account_name provider_config headers client_cookies =
     (let rq = check_in_request provider_config headers client_cookies;
          sent = [Print (CheckinExecuting account_name), HttpPost rq]
      in case http_post en rq of
           Inl e \<Rightarrow> (Inl e, sent)
         | Inr r \<Rightarrow>
             (case check_in_result account_name r of
                (res, tr) \<Rightarrow>
                  (res, sent @ [Print (CheckinResponse account_name (status_code r))] @ tr)))"

section \<open>One account\<close>

text \<open>The headers of the session and the GET for the user information.\<close>

definition session_headers :: "provider_config \<Rightarrow> account_config \<Rightarrow> (string \<times> string) list" where
  "session_headers p account =
     dict_update [] [(''User-Agent'', ''Mozilla/5.0''),
                     (''Accept'', ''application/json, text/plain, */*''),
                     (api_user_key p, api_user account)]"

definition user_info_request :: "provider_config \<Rightarrow> account_config \<Rightarrow> pydict \<Rightarrow> request" where
  "user_info_request p account all_cookies =
     \<lparr>req_url = domain p @ user_info_path p, req_headers = session_headers p account,
      req_cookies = all_cookies\<rparr>"

text \<open>The body of the \<^verbatim>\<open>try\<close> block of \<^verbatim>\<open>check_in_account\<close>.\<close>

definition check_in_session ::
  "env \<Rightarrow> account_config \<Rightarrow> string \<Rightarrow> provider_config \<Rightarrow> pydict
     \<Rightarrow> (error + bool \<times> balance_info option) \<times> event list" where
  "check_in_session en account name p all_cookies =
     (let headers = session_headers p account;
          rq = user_info_request p account all_cookies
      in case get_user_info (http_get en rq) of
           Inl e \<Rightarrow> (Inl e, [HttpGet rq])
         | Inr info \<Rightarrow>
             (let shown = [HttpGet rq,
                           Print (if info_success info then ShowDisplay (display info)
                                  else NoBalanceInfo name)]
              in if needs_manual_check_in p then
                   (case execute_check_in en name p headers all_cookies of
                      (Inl e, tr) \<Rightarrow> (Inl e, shown @ tr)
                    | (Inr success, tr) \<Rightarrow> (Inr (success, Some info), shown @ tr))
                 else (Inr (True, Some info), shown @ [Print (AutoCheckinDone name)])))"

text \<open>\<^verbatim>\<open>check_in_account\<close>. Only the HTTP phase is inside \<^verbatim>\<open>try\<close>: there an exception
  becomes \<^verbatim>\<open>(False, None)\<close> and the client is closed on every path. What
  \<^verbatim>\<open>prepare_cookies\<close> raises leaves the function.\<close>

definition check_in_account ::
  "env \<Rightarrow> account_config \<Rightarrow> nat \<Rightarrow> (error + bool \<times> balance_info option) \<times> event list" where
  "check_in_account en account idx =
     (let name = get_display_name en account idx;
          started = [Print (ProcessingStart name)]
      in case get_provider en (provider account) of
           None \<Rightarrow>
             (Inr (False, None), started @ [Print (ProviderNotFound name (provider account))])
         | Some p \<Rightarrow>
             (let resolved = started @ [Print (UsingProvider name (provider account) (domain p))];
                  user_cookies = parse_cookies (cookies account)
              in if user_cookies = [] then
                   (Inr (False, None), resolved @ [Print (CookiesInvalid name)])
                 else
                   (case prepare_cookies en name p user_cookies of
                      (Inl e, tr) \<Rightarrow> (Inl e, resolved @ tr)
                    | (Inr None, tr) \<Rightarrow> (Inr (False, None), resolved @ tr)
                    | (Inr (Some all_cookies), tr) \<Rightarrow>
                        (if all_cookies = [] then (Inr (False, None), resolved @ tr)
                         else
                           (case check_in_session en account name p all_cookies of
                              (Inl e, tr') \<Rightarrow>
                                (Inr (False, None),
                                 resolved @ tr @ [ClientOpen] @ tr'
                                   @ [Print (CheckinException name e), ClientClose])
                            | (Inr outcome, tr') \<Rightarrow>
                                (Inr outcome,
                                 resolved @ tr @ [ClientOpen] @ tr' @ [ClientClose]))))))"

section \<open>The run\<close>

text \<open>\<^verbatim>\<open>send_dingtalk_message\<close>: nothing is sent without a webhook URL; an exception of
  the POST is printed.\<close>

definition send_dingtalk_message ::
  "env \<Rightarrow> balance_row list \<Rightarrow> int \<Rightarrow> int \<Rightarrow> int \<Rightarrow> event list" where
  "send_dingtalk_message en accounts_info success fail total_count =
     (case webhook en of
        None \<Rightarrow> [Print DingNoWebhook]
      | Some url \<Rightarrow>
          (if url = [] then [Print DingNoWebhook]
           else
             (let payload = \<lparr>rows = accounts_info, n_success = success, n_fail = fail,
                             n_total = total_count\<rparr>
              in case webhook_post en url payload of
                   Inl e \<Rightarrow> [WebhookPost url payload, Print (DingPushError e)]
                 | Inr st \<Rightarrow>
                     [WebhookPost url payload,
                      Print (if st = 200 then DingPushed else DingPushFailed st)])))"

text \<open>The \<^verbatim>\<open>for\<close> loop of \<^verbatim>\<open>main\<close> from index \<open>i\<close> on: the number of accounts that
  succeeded and the summary rows, or the exception that ended the loop.\<close>

fun check_in_all ::
  "env \<Rightarrow> nat \<Rightarrow> account_config list \<Rightarrow> (error + int \<times> balance_row list) \<times> event list" where
  "check_in_all en i [] = (Inr (0, []), [])"
| "check_in_all en i (account # rest) =
     (case check_in_account en account i of
        (Inl e, tr) \<Rightarrow> (Inl e, tr)
      | (Inr (ok, info), tr) \<Rightarrow>
          (case check_in_all en (Suc i) rest of
             (Inl e, tr') \<Rightarrow> (Inl e, tr @ tr')
           | (Inr (success, balances), tr') \<Rightarrow>
               (Inr ((if ok then 1 else 0) + success,
                     (case info of
                        Some (Balance q u d) \<Rightarrow> [(get_display_name en account i, q, u)]
                      | _ \<Rightarrow> []) @ balances),
                tr @ tr')))"

text \<open>\<^verbatim>\<open>main\<close>: \<open>Inr n\<close> is \<^verbatim>\<open>sys.exit(n)\<close>, \<open>Inl e\<close> an exception that leaves it.\<close>

definition main :: "env \<Rightarrow> (error + int) \<times> event list" where
  "main en =
     (let started = [Print SystemStart, Print TimeStamp]
      in case load_accounts_config en of
           None \<Rightarrow> (Inr 1, started @ [Print LoadAccountsFailed])
         | Some accounts \<Rightarrow>
             (if accounts = [] then (Inr 1, started @ [Print LoadAccountsFailed])
              else
                (case check_in_all en 0 accounts of
                   (Inl e, tr) \<Rightarrow> (Inl e, started @ tr)
                 | (Inr (success, balances), tr) \<Rightarrow>
                     (let total_count = int (length accounts);
                          fail = total_count - success
                      in (Inr (if 0 < success then 0 else 1),
                          started @ tr
                            @ send_dingtalk_message en balances success fail total_count)))))"

text \<open>\<^verbatim>\<open>run_main\<close>: the exit code of the process and everything the run did.\<close>

definition run_main :: "env \<Rightarrow> int \<times> event list" where
  "run_main en =
     (case main en of
        (Inr code, tr) \<Rightarrow> (code, tr)
      | (Inl e, tr) \<Rightarrow> (1, tr @ [Print (RunFailed e)]))"

section \<open>Example configuration\<close>

text \<open>Two providers, one that needs WAF cookies and one that does not, and three
  accounts; the theorems below are run on them.\<close>

definition waf_provider :: provider_config where
  "waf_provider =
     \<lparr>domain = ''https://anyrouter.top'', login_path = ''/login'',
      user_info_path = ''/api/user/self'', sign_in_path = ''/api/user/sign_in'',
      api_user_key = ''new-api-user'', needs_waf_cookies = True,
      needs_manual_check_in = True\<rparr>"

definition direct_provider :: provider_config where
  "direct_provider =
     \<lparr>domain = ''https://agentrouter.org'', login_path = ''/login'',
      user_info_path = ''/api/user/self'', sign_in_path = ''/api/user/sign_in'',
      api_user_key = ''new-api-user'', needs_waf_cookies = False,
      needs_manual_check_in = True\<rparr>"

definition waf_account :: account_config where
  "waf_account =
     \<lparr>provider = ''anyrouter'', cookies = PDict [(''session'', PStr ''abc'')],
      api_user = ''1001''\<rparr>"

definition direct_account :: account_config where
  "direct_account =
     \<lparr>provider = ''agentrouter'', cookies = PStr ''session=xyz'', api_user = ''1002''\<rparr>"

definition broken_account :: account_config where
  "broken_account = \<lparr>provider = ''agentrouter'', cookies = PNone, api_user = ''1003''\<rparr>"

definition user_info_ok :: response where
  "user_info_ok =
     \<lparr>status_code = 200,
      json = Inr (PDict [(''success'', PBool True),
                         (''data'', PDict [(''quota'', PInt 1234567),
                                           (''used_quota'', PInt 2500)])]),
      body_text = []\<rparr>"

definition sign_in_ok :: response where
  "sign_in_ok = \<lparr>status_code = 200, json = Inr (PDict [(''ret'', PInt 1)]), body_text = []\<rparr>"

text \<open>User-info answers: the second format with nothing on the account, and the first
  format with a quota beyond the range of a float.\<close>

definition agentrouter_zero :: response where
  "agentrouter_zero =
     \<lparr>status_code = 200,
      json = Inr (PDict [(''status'', PStr ''ok''), (''credit'', PInt 0), (''usage'', PInt 0)]),
      body_text = []\<rparr>"

definition beyond_float :: int where
  "beyond_float = 500000 * 2 ^ 1024"

definition huge_quota :: response where
  "huge_quota =
     \<lparr>status_code = 200,
      json = Inr (PDict [(''success'', PBool True),
                         (''data'', PDict [(''quota'', PInt beyond_float),
                                           (''used_quota'', PInt 0)])]),
      body_text = []\<rparr>"

definition connect_error :: error where
  "connect_error =
     Error (OtherError ''ConnectError'')
       ''[Errno 111] Connection refused while connecting to agentrouter.org''"

text \<open>Check-in answers: a refusal with a message, a body that is no JSON, and a JSON
  array.\<close>

definition already_signed :: response where
  "already_signed =
     \<lparr>status_code = 200,
      json = Inr (PDict [(''code'', PInt 1), (''msg'', PStr ''already signed'')]),
      body_text = []\<rparr>"

definition plain_success :: response where
  "plain_success =
     \<lparr>status_code = 200,
      json = Inl (Error JSONDecodeError ''Expecting value: line 1 column 1 (char 0)''),
      body_text = ''Success!''\<rparr>"

definition array_body :: response where
  "array_body = \<lparr>status_code = 200, json = Inr (PList []), body_text = ''[]''\<rparr>"

text \<open>An environment in which every call works: the browser would deliver two of the
  three WAF cookies, both HTTP calls answer 200, no webhook is configured.\<close>

definition example_env :: "account_config list \<Rightarrow> env" where
  "example_env accounts =
     \<lparr>get_provider = (\<lambda>name. if name = ''anyrouter'' then Some waf_provider
                             else if name = ''agentrouter'' then Some direct_provider
                             else None),
      get_display_name = (\<lambda>account idx. api_user account),
      load_accounts_config = Some accounts,
      browser_launch = Inr (),
      browser_cookies = (\<lambda>url. Inr [(''acw_tc'', ''1''), (''cdn_sec_tc'', ''2'')]),
      http_get = (\<lambda>rq. Inr user_info_ok),
      http_post = (\<lambda>rq. Inr sign_in_ok),
      webhook = None,
      webhook_post = (\<lambda>url payload. Inr 200),
      json_dumps = (\<lambda>d. ''{}''),
      sha256_hex = (\<lambda>t. ''44136fa355b3678a1146ad16f7e8649e94fb4fc21fe77e8310c060f61caaff8a'')\<rparr>"

fun is_print :: "event \<Rightarrow> bool" where
  "is_print (Print m) = True"
| "is_print _ = False"



text \<open>The same environment with a network that fails on every GET.\<close>

definition offline_env :: "account_config list \<Rightarrow> env" where
  "offline_env accounts = (example_env accounts)\<lparr>http_get := (\<lambda>rq. Inl connect_error)\<rparr>"

section \<open>Dictionaries\<close>

lemma map_of_dict_set: "map_of (dict_set k v d) = (map_of d)(k \<mapsto> v)"
  by (induction d) (auto simp: fun_eq_iff)

lemma keys_dict_set:
  "map fst (dict_set k v d) = (if k \<in> fst ` set d then map fst d else map fst d @ [k])"
  by (induction d) auto

lemma key_set_dict_set: "fst ` set (dict_set k v d) = insert k (fst ` set d)"
proof -
  have "set (map fst (dict_set k v d)) = insert k (set (map fst d))"
    unfolding keys_dict_set by auto
  then show ?thesis by simp
qed

lemma keys_dict_update:
  "distinct (map fst other) \<Longrightarrow>
   map fst (dict_update d other) = map fst d @ filter (\<lambda>k. k \<notin> fst ` set d) (map fst other)"
  unfolding dict_update_def
proof (induction other arbitrary: d)
  case Nil
  then show ?case by simp
next
  case (Cons kv other)
  obtain k v where kv: "kv = (k, v)" by (cases kv)
  from Cons.prems kv have dist: "distinct (map fst other)" and fresh: "k \<notin> fst ` set other"
    by auto
  have "filter (\<lambda>x. x \<noteq> k \<and> x \<notin> fst ` set d) (map fst other)
      = filter (\<lambda>x. x \<notin> fst ` set d) (map fst other)"
    using fresh by (intro filter_cong) auto
  then show ?case
    using Cons.IH [OF dist, of "dict_set k v d"] kv
    by (simp add: key_set_dict_set keys_dict_set)
qed

lemma map_of_dict_update:
  "distinct (map fst other) \<Longrightarrow>
   map_of (dict_update d other) k
     = (case map_of other k of Some v \<Rightarrow> Some v | None \<Rightarrow> map_of d k)"
  unfolding dict_update_def
proof (induction other arbitrary: d)
  case Nil
  then show ?case by simp
next
  case (Cons kv other)
  obtain k' v' where kv: "kv = (k', v')" by (cases kv)
  from Cons.prems kv have dist: "distinct (map fst other)" and fresh: "map_of other k' = None"
    by (auto simp: map_of_eq_None_iff)
  show ?case
    using Cons.IH [OF dist, of "dict_set k' v' d"] kv fresh
    by (auto simp: map_of_dict_set split: option.splits)
qed

section \<open>Assembling the session cookies\<close>

text \<open>
  The expression \<^verbatim>\<open>{**waf_cookies, **user_cookies}\<close> of line 177 on two dictionaries: the
  result has exactly the keys of both, the WAF cookies first, in their order, then the user
  cookies with new names, and a name that occurs in both keeps the value of the user
  cookie.
\<close>

lemma merge_cookies_keys_and_values:
  assumes "distinct (map fst waf_cookies)" and "distinct (map fst user_cookies)"
  shows "map fst (merge_cookies waf_cookies user_cookies)
           = map fst waf_cookies
             @ filter (\<lambda>k. k \<notin> set (map fst waf_cookies)) (map fst user_cookies)"
    and "map_of (merge_cookies waf_cookies user_cookies) k
           = (case map_of user_cookies k of
                Some v \<Rightarrow> Some v
              | None \<Rightarrow> map_of waf_cookies k)"
proof -
  have first: "map fst (dict_update [] waf_cookies) = map fst waf_cookies"
    using keys_dict_update [OF assms(1), of "[]"] by simp
  show "map fst (merge_cookies waf_cookies user_cookies)
           = map fst waf_cookies
             @ filter (\<lambda>k. k \<notin> set (map fst waf_cookies)) (map fst user_cookies)"
    unfolding merge_cookies_def
    using keys_dict_update [OF assms(2), of "dict_update [] waf_cookies"] first
    by (metis list.set_map)
  show "map_of (merge_cookies waf_cookies user_cookies) k
             = (case map_of user_cookies k of
                  Some v \<Rightarrow> Some v
                | None \<Rightarrow> map_of waf_cookies k)"
    unfolding merge_cookies_def
    by (simp add: map_of_dict_update [OF assms(2)] map_of_dict_update [OF assms(1)]
             split: option.splits)
qed


section \<open>Cookie payloads that are neither a dictionary nor a string\<close>

text \<open>
  C10. When the raw cookie payload of an account is neither a dictionary nor a string,
  \<^verbatim>\<open>parse_cookies\<close> returns the empty dictionary and \<^verbatim>\<open>check_in_account\<close> returns
  \<^verbatim>\<open>(False, None)\<close> having done nothing but print: no browser is started and no HTTP
  request is sent. When the provider of the account is known, the last line printed is the
  one that reports the cookie configuration as invalid.
\<close>

theorem unusable_cookie_payload_rejected:
  assumes "\<forall>d. cookies account \<noteq> PDict d" and "\<forall>s. cookies account \<noteq> PStr s"
  shows "parse_cookies (cookies account) = []
       \<and> fst (check_in_account en account idx) = Inr (False, None)
       \<and> list_all is_print (snd (check_in_account en account idx))
       \<and> (get_provider en (provider account) \<noteq> None \<longrightarrow>
            last (snd (check_in_account en account idx))
              = Print (CookiesInvalid (get_display_name en account idx)))"
proof -
  have empty: "parse_cookies (cookies account) = []"
    using assms by (cases "cookies account") auto
  show ?thesis
    by (cases "get_provider en (provider account)")
       (simp_all add: empty check_in_account_def Let_def)
qed

theorem unusable_cookie_payload_rejected_witness:
  "(\<forall>d. cookies broken_account \<noteq> PDict d) \<and> (\<forall>s. cookies broken_account \<noteq> PStr s)
   \<and> parse_cookies (cookies broken_account) = []
   \<and> check_in_account (example_env [broken_account]) broken_account 0
       = (Inr (False, None),
          [Print (ProcessingStart ''1003''),
           Print (UsingProvider ''1003'' ''agentrouter'' ''https://agentrouter.org''),
           Print (CookiesInvalid ''1003'')])"
proof -
  have a: "\<forall>d. cookies broken_account \<noteq> PDict d" and b: "\<forall>s. cookies broken_account \<noteq> PStr s"
    by (simp_all add: broken_account_def)
  show ?thesis
    using unusable_cookie_payload_rejected [OF a b, of "example_env [broken_account]" 0]
    by (simp add: broken_account_def example_env_def direct_provider_def
                  check_in_account_def Let_def)
qed

section \<open>Evaluating the float arithmetic\<close>

lemma bit_length_double: "0 < n \<Longrightarrow> bit_length (2 * n) = 1 + bit_length n"
  by (subst bit_length.simps) simp

lemma bit_length_shift: "0 < n \<Longrightarrow> bit_length (n * 2 ^ k) = bit_length n + int k"
proof (induction k)
  case 0
  then show ?case by simp
next
  case (Suc k)
  then have "bit_length (2 * (n * 2 ^ k)) = 1 + bit_length (n * 2 ^ k)"
    by (intro bit_length_double) simp
  with Suc show ?case by (simp add: mult.assoc mult.left_commute)
qed

lemma bit_length_pos: "0 < n \<Longrightarrow> 1 \<le> bit_length n"
proof (induction n rule: bit_length.induct)
  case (1 n)
  show ?case
  proof (cases "n div 2 = 0")
    case True
    then show ?thesis using "1.prems" by (subst bit_length.simps) (simp add: bit_length.simps)
  next
    case False
    then have "1 \<le> bit_length (n div 2)" using "1.IH" "1.prems" by simp
    then show ?thesis using "1.prems" by (subst bit_length.simps) simp
  qed
qed

lemma bit_length_bounds:
  "0 < n \<Longrightarrow> 2 ^ nat (bit_length n - 1) \<le> n \<and> n < 2 ^ nat (bit_length n)"
proof (induction n rule: bit_length.induct)
  case (1 n)
  show ?case
  proof (cases "n div 2 = 0")
    case True
    with "1.prems" have "n = 1" by presburger
    then show ?thesis by (simp add: bit_length.simps)
  next
    case False
    let ?m = "n div 2"
    let ?b = "bit_length ?m"
    from False have mpos: "0 < ?m" by simp
    have IH: "2 ^ nat (?b - 1) \<le> ?m \<and> ?m < 2 ^ nat ?b"
      using "1.IH" "1.prems" mpos by simp
    have bpos: "1 \<le> ?b" using bit_length_pos [OF mpos] .
    have bl: "bit_length n = 1 + ?b"
      using "1.prems" by (subst bit_length.simps) simp
    have e1: "nat (bit_length n - 1) = Suc (nat (?b - 1))" using bl bpos by simp
    have e2: "nat (bit_length n) = Suc (nat ?b)" using bl bpos by simp
    have "2 * 2 ^ nat (?b - 1) \<le> 2 * ?m" using IH by simp
    also have "\<dots> \<le> n" by simp
    finally have lower: "2 ^ nat (bit_length n - 1) \<le> n" unfolding e1 by simp
    have "Suc ?m \<le> 2 ^ nat ?b" using IH by simp
    then have "2 * Suc ?m \<le> 2 * 2 ^ nat ?b" by simp
    moreover have "n < 2 * Suc ?m" by presburger
    ultimately have upper: "n < 2 ^ nat (bit_length n)" unfolding e2 by simp
    from lower upper show ?thesis by blast
  qed
qed

text \<open>When the exponent found is not negative, \<open>2^e\<close> is at most the quotient.\<close>

lemma floor_log2_lower:
  assumes "0 < p" and "0 < q" and "0 \<le> floor_log2 p q"
  shows "q * 2 ^ nat (floor_log2 p q) \<le> p"
proof -
  let ?d = "bit_length p - bit_length q"
  show ?thesis
  proof (cases "if 0 \<le> ?d then q * 2 ^ nat ?d \<le> p else q \<le> p * 2 ^ nat (- ?d)")
    case True
    then have e: "floor_log2 p q = ?d" by (simp add: floor_log2_def Let_def)
    with assms(3) True show ?thesis by simp
  next
    case False
    then have e: "floor_log2 p q = ?d - 1" by (simp add: floor_log2_def Let_def)
    with assms(3) have d1: "1 \<le> ?d" by simp
    have bq: "1 \<le> bit_length q" using bit_length_pos [OF assms(2)] .
    have "q < 2 ^ nat (bit_length q)" using bit_length_bounds [OF assms(2)] by simp
    then have "q * 2 ^ nat (?d - 1) \<le> 2 ^ nat (bit_length q) * 2 ^ nat (?d - 1)"
      by simp
    also have "\<dots> = 2 ^ (nat (bit_length q) + nat (?d - 1))" by (simp add: power_add)
    also have "nat (bit_length q) + nat (?d - 1) = nat (bit_length p - 1)"
      using d1 bq by simp
    also have "2 ^ nat (bit_length p - 1) \<le> p" using bit_length_bounds [OF assms(1)] by simp
    finally show ?thesis unfolding e .
  qed
qed

lemma nearest_double_in_range:
  assumes "0 < q" and "p < q * 2 ^ 1023"
  shows "\<exists>x. nearest_double s p q = Some x"
proof (cases "p = 0")
  case True
  then show ?thesis by (simp add: nearest_double_def)
next
  case False
  then have ppos: "0 < p" by simp
  have "floor_log2 p q \<le> 1022"
  proof (rule ccontr)
    assume "\<not> floor_log2 p q \<le> 1022"
    then have big: "1023 \<le> floor_log2 p q" by simp
    then have "q * 2 ^ nat (floor_log2 p q) \<le> p"
      using floor_log2_lower [OF ppos assms(1)] by simp
    moreover have "(2::nat) ^ 1023 \<le> 2 ^ nat (floor_log2 p q)"
      using big by (intro power_increasing) simp_all
    then have "q * 2 ^ 1023 \<le> q * 2 ^ nat (floor_log2 p q)" by simp
    ultimately show False using assms(2) by simp
  qed
  then have "max (floor_log2 p q) (- 1022) \<le> 1022" by simp
  then have "\<not> 1023 < max (floor_log2 p q) (- 1022)"
    and "max (floor_log2 p q) (- 1022) \<noteq> 1023"
    by simp_all
  then show ?thesis using False by (simp add: nearest_double_def Let_def)
qed

lemma int_truediv_in_range:
  assumes "\<bar>a\<bar> < 500000 * 2 ^ 1023"
  shows "\<exists>x. int_truediv a 500000 = Inr x"
proof -
  have "nat \<bar>a\<bar> < 500000 * 2 ^ 1023"
    using assms by (simp add: nat_less_iff)
  then obtain x where "nearest_double ((a < 0) \<noteq> (500000 < (0::int))) (nat \<bar>a\<bar>) 500000 = Some x"
    using nearest_double_in_range [of 500000 "nat \<bar>a\<bar>"] by auto
  then show ?thesis by (simp add: int_truediv_def)
qed

lemmas float_eval =
  normalize_def bindE_def int_truediv_def nearest_double_def floor_log2_def
  round_half_even_def Let_def bit_length.simps

lemma int_truediv_zero: "int_truediv 0 500000 = Inr (Finite False 0 0)"
  by (simp add: int_truediv_def nearest_double_def)

lemma normalize_zero: "normalize (PInt 0) = Inr (Finite False 0 0)"
  by (simp add: normalize_def bindE_def int_truediv_zero py_round2.simps)

lemma int_truediv_1234567:
  "int_truediv 1234567 500000 = Inr (Finite False 5559995481163911 (- 51))"
  by (simp add: float_eval)

lemma int_truediv_2500: "int_truediv 2500 500000 = Inr (Finite False 5764607523034235 (- 60))"
  by (simp add: float_eval)

lemma round_1234567:
  "py_round2 (Finite False 5559995481163911 (- 51)) = Finite False 5561945539802563 (- 51)"
  by (simp add: float_eval py_round2.simps)

lemma round_2500:
  "py_round2 (Finite False 5764607523034235 (- 60)) = Finite False 5764607523034235 (- 59)"
  by (simp add: float_eval py_round2.simps)

lemma int_truediv_overflow:
  "int_truediv beyond_float 500000
     = Inl (Error OverflowError ''integer division result too large for a float'')"
proof -
  have bl: "bit_length (500000 * 2 ^ 1024) = bit_length 500000 + 1024"
    using bit_length_shift [of 500000 1024] by simp
  have nat_eq: "nat \<bar>500000 * 2 ^ 1024 :: int\<bar> = 500000 * 2 ^ 1024"
    by (simp add: nat_mult_distrib nat_power_eq)
  have "floor_log2 (500000 * 2 ^ 1024) 500000 = 1024"
    unfolding floor_log2_def bl by (simp add: Let_def)
  then have none: "nearest_double False (500000 * 2 ^ 1024) 500000 = None"
    by (simp add: nearest_double_def Let_def)
  have "int_truediv (500000 * 2 ^ 1024) 500000
     = Inl (Error OverflowError ''integer division result too large for a float'')"
    unfolding int_truediv_def nat_eq using none by simp
  then show ?thesis by (simp only: beyond_float_def)
qed

section \<open>The user-info request\<close>

lemma get_user_info_try_dict:
  assumes "status_code r = 200" and "json r = Inr (PDict d)"
  shows "get_user_info_try (Inr r)
       = (if truthy (get_default d ''success'' PNone) then anyrouter_format (PDict d)
          else if status_ok (get_default d ''status'' PNone)
                  \<or> py_eq_int (get_default d ''code'' PNone) 0
               then agentrouter_format (PDict d)
          else Inr (Failure (HttpStatus 200)))"
  using assms by (simp add: get_user_info_try_def bindE_def dict_get_def)

text \<open>
  C9. Whatever \<^verbatim>\<open>client.get\<close> does (it returns a response with any status and body, or
  it raises) \<^verbatim>\<open>get_user_info\<close> returns a dictionary and raises nothing. When the body
  of its \<^verbatim>\<open>try\<close> block ends in an exception \<open>e\<close>, the result is a failure whose error string
  is the fixed prefix of ten characters, then \<^verbatim>\<open>str(e)\<close> cut to its first 50 characters,
  then three dots: 13 characters more than the part of \<^verbatim>\<open>str(e)\<close> it shows, so at most 63
  characters.
\<close>

theorem get_user_info_error_string:
  "(\<exists>info. get_user_info got = Inr info)
   \<and> (\<forall>e. get_user_info_try got = Inl e \<longrightarrow>
          get_user_info got = Inr (Failure (ExceptionText (take 50 (exc_text e))))
          \<and> error_string (ExceptionText (take 50 (exc_text e)))
              = exception_prefix @ codepoints (take 50 (exc_text e)) @ codepoints ''...''
          \<and> length (error_string (ExceptionText (take 50 (exc_text e))))
              = 13 + min 50 (length (exc_text e))
          \<and> length (error_string (ExceptionText (take 50 (exc_text e)))) \<le> 63)"
  by (cases "get_user_info_try got")
     (simp_all add: get_user_info_def exception_prefix_def codepoints_def min_def)

theorem get_user_info_error_string_witness:
  "get_user_info_try (Inl (Error (OtherError ''ReadTimeout'') ''timed out''))
     = Inl (Error (OtherError ''ReadTimeout'') ''timed out'')
   \<and> get_user_info (Inl (Error (OtherError ''ReadTimeout'') ''timed out''))
       = Inr (Failure (ExceptionText ''timed out''))
   \<and> error_string (ExceptionText ''timed out'')
       = exception_prefix @ codepoints ''timed out'' @ codepoints ''...''
   \<and> length (error_string (ExceptionText ''timed out'')) = 22"
  using get_user_info_error_string [of "Inl (Error (OtherError ''ReadTimeout'') ''timed out'')"]
  by (simp add: get_user_info_try_def bindE_def)

text \<open>An exception whose text has 66 characters: the error string returned has 63
  characters, more than 50.\<close>

theorem get_user_info_error_string_counterexample:
  "length (exc_text connect_error) = 66
   \<and> get_user_info (Inl connect_error)
       = Inr (Failure (ExceptionText ''[Errno 111] Connection refused while connecting to''))
   \<and> length (error_string (ExceptionText
                ''[Errno 111] Connection refused while connecting to'')) = 63
   \<and> \<not> length (error_string (ExceptionText
                  ''[Errno 111] Connection refused while connecting to'')) \<le> 50"
  by (simp add: get_user_info_def get_user_info_try_def bindE_def connect_error_def
                exception_prefix_def codepoints_def)

text \<open>
  C5. The two formats are tried in order, so a Dialect-B answer is one that the second
  branch of \<^verbatim>\<open>get_user_info\<close> handles: status 200, a decoded object without a truthy
  \<^verbatim>\<open>success\<close> field, and \<^verbatim>\<open>status\<close> equal to \<^verbatim>\<open>ok\<close> or \<^verbatim>\<open>success\<close>, or \<^verbatim>\<open>code\<close> equal
  to 0. For every such answer whose \<^verbatim>\<open>credit\<close> and \<^verbatim>\<open>usage\<close> (0 when absent) both
  normalise to zero, the result is successful, carries these two zero values, and its
  display is the line saying that the balance is not available, not the line with the two
  amounts.
\<close>

theorem agentrouter_zero_balance_unavailable:
  assumes "status_code r = 200" and "json r = Inr (PDict d)"
    and "\<not> truthy (get_default d ''success'' PNone)"
    and "status_ok (get_default d ''status'' PNone) \<or> py_eq_int (get_default d ''code'' PNone) 0"
    and "normalize (get_default d ''credit'' (PInt 0)) = Inr q"
    and "normalize (get_default d ''usage'' (PInt 0)) = Inr u"
    and "is_zero q" and "is_zero u"
  shows "get_user_info (Inr r) = Inr (Balance q u BalanceUnavailable)"
  using assms
  by (simp add: get_user_info_def get_user_info_try_dict agentrouter_format_def
                bindE_def dict_get_def)

theorem agentrouter_zero_balance_unavailable_witness:
  "status_code agentrouter_zero = 200
   \<and> \<not> truthy (get_default [(''status'', PStr ''ok''), (''credit'', PInt 0),
                              (''usage'', PInt 0)] ''success'' PNone)
   \<and> normalize (PInt 0) = Inr (Finite False 0 0)
   \<and> is_zero (Finite False 0 0)
   \<and> get_user_info (Inr agentrouter_zero)
       = Inr (Balance (Finite False 0 0) (Finite False 0 0) BalanceUnavailable)"
  using agentrouter_zero_balance_unavailable
          [of agentrouter_zero
              "[(''status'', PStr ''ok''), (''credit'', PInt 0), (''usage'', PInt 0)]"
              "Finite False 0 0" "Finite False 0 0"]
  by (simp add: agentrouter_zero_def get_default_def status_ok_def normalize_zero)

text \<open>
  C6. Take a user-info answer with status 200 whose decoded object has a truthy
  \<^verbatim>\<open>success\<close> field and a \<^verbatim>\<open>data\<close> object with integer fields \<^verbatim>\<open>quota\<close> and
  \<^verbatim>\<open>used_quota\<close>. When both quotients by 500000 are within the range of a float (the
  division raises no \<^verbatim>\<open>OverflowError\<close>), the result is successful, \<^verbatim>\<open>quota\<close> is
  \<^verbatim>\<open>round(raw_quota / 500000, 2)\<close> and \<^verbatim>\<open>used_quota\<close> is
  \<^verbatim>\<open>round(raw_used_quota / 500000, 2)\<close>. Both quotients are within range whenever the two
  raw values are below \<open>500000 * 2^1023\<close> in magnitude.
\<close>

theorem anyrouter_balance_normalized:
  assumes "status_code r = 200" and "json r = Inr (PDict d)"
    and "truthy (get_default d ''success'' PNone)"
    and "map_of d ''data'' = Some (PDict user_data)"
    and "map_of user_data ''quota'' = Some (PInt raw_quota)"
    and "map_of user_data ''used_quota'' = Some (PInt raw_used_quota)"
  shows "(\<forall>x y. int_truediv raw_quota 500000 = Inr x
               \<longrightarrow> int_truediv raw_used_quota 500000 = Inr y
               \<longrightarrow> get_user_info (Inr r)
                     = Inr (Balance (py_round2 x) (py_round2 y)
                              (BalanceLine (py_round2 x) (py_round2 y))))
       \<and> (\<bar>raw_quota\<bar> < 500000 * 2 ^ 1023 \<longrightarrow> \<bar>raw_used_quota\<bar> < 500000 * 2 ^ 1023
            \<longrightarrow> (\<exists>x y. int_truediv raw_quota 500000 = Inr x
                      \<and> int_truediv raw_used_quota 500000 = Inr y))"
proof (intro conjI allI impI)
  fix x y
  assume "int_truediv raw_quota 500000 = Inr x" and "int_truediv raw_used_quota 500000 = Inr y"
  with assms show "get_user_info (Inr r)
                     = Inr (Balance (py_round2 x) (py_round2 y)
                              (BalanceLine (py_round2 x) (py_round2 y)))"
    by (simp add: get_user_info_def get_user_info_try_dict anyrouter_format_def
                  bindE_def dict_get_def get_default_def normalize_def)
next
  assume "\<bar>raw_quota\<bar> < 500000 * 2 ^ 1023" and "\<bar>raw_used_quota\<bar> < 500000 * 2 ^ 1023"
  then show "\<exists>x y. int_truediv raw_quota 500000 = Inr x
                 \<and> int_truediv raw_used_quota 500000 = Inr y"
    using int_truediv_in_range [of raw_quota] int_truediv_in_range [of raw_used_quota]
    by blast
qed

theorem anyrouter_balance_normalized_witness:
  "truthy (get_default [(''success'', PBool True),
                        (''data'', PDict [(''quota'', PInt 1234567),
                                          (''used_quota'', PInt 2500)])] ''success'' PNone)
   \<and> \<bar>1234567 :: int\<bar> < 500000 * 2 ^ 1023 \<and> \<bar>2500 :: int\<bar> < 500000 * 2 ^ 1023
   \<and> int_truediv 1234567 500000 = Inr (Finite False 5559995481163911 (- 51))
   \<and> int_truediv 2500 500000 = Inr (Finite False 5764607523034235 (- 60))
   \<and> get_user_info (Inr user_info_ok)
       = Inr (Balance (Finite False 5561945539802563 (- 51))
                (Finite False 5764607523034235 (- 59))
                (BalanceLine (Finite False 5561945539802563 (- 51))
                   (Finite False 5764607523034235 (- 59))))"
  using anyrouter_balance_normalized
          [of user_info_ok
              "[(''success'', PBool True),
                (''data'', PDict [(''quota'', PInt 1234567), (''used_quota'', PInt 2500)])]"
              "[(''quota'', PInt 1234567), (''used_quota'', PInt 2500)]"
              1234567 2500]
  by (simp add: user_info_ok_def get_default_def int_truediv_1234567 int_truediv_2500
                round_1234567 round_2500)

text \<open>A quota whose quotient by 500000 is \<open>2^1024\<close> makes the division raise; the
  exception is caught and the result is a failure.\<close>

theorem anyrouter_balance_counterexample:
  "get_user_info (Inr huge_quota)
     = Inr (Failure (ExceptionText ''integer division result too large for a float''))"
  by (simp add: huge_quota_def get_user_info_def get_user_info_try_dict
                anyrouter_format_def bindE_def dict_get_def get_default_def normalize_def
                int_truediv_overflow)

section \<open>Classifying the check-in response\<close>

lemma check_in_accepted_dict:
  "check_in_accepted (PDict d)
     = Inr (py_eq_int (get_default d ''ret'' PNone) 1
            \<or> py_eq_int (get_default d ''code'' PNone) 0
            \<or> truthy (get_default d ''success'' PNone))"
  by (simp add: check_in_accepted_def bindE_def dict_get_def)

lemma check_in_accepted_other:
  "\<forall>d. result \<noteq> PDict d \<Longrightarrow> \<exists>e. check_in_accepted result = Inl e"
  by (cases result) (simp_all add: check_in_accepted_def bindE_def dict_get_def)

text \<open>
  C4. For every check-in response, the classification \<open>check_in_result\<close> that
  \<^verbatim>\<open>execute_check_in\<close> applies to the answer of its POST returns \<^verbatim>\<open>True\<close> exactly when
  the status is 200 and either the body decodes to a JSON object with \<^verbatim>\<open>ret == 1\<close>, or
  \<^verbatim>\<open>code == 0\<close>, or a truthy \<^verbatim>\<open>success\<close>, or decoding raises \<^verbatim>\<open>JSONDecodeError\<close> and the
  lower-cased body text contains \<^verbatim>\<open>success\<close>. A decoded JSON object that matches none of
  the three tests gives \<^verbatim>\<open>False\<close>, and the line printed shows its \<^verbatim>\<open>msg\<close> field, or
  \<^verbatim>\<open>Unknown error\<close> when it has none.
\<close>

theorem check_in_classification:
  "(fst (check_in_result name r) = Inr True \<longleftrightarrow>
      status_code r = 200
      \<and> (case json r of
            Inr result \<Rightarrow>
              (\<exists>d. result = PDict d
                  \<and> (py_eq_int (get_default d ''ret'' PNone) 1
                     \<or> py_eq_int (get_default d ''code'' PNone) 0
                     \<or> truthy (get_default d ''success'' PNone)))
          | Inl e \<Rightarrow>
              exc_class e = JSONDecodeError \<and> contains ''success'' (lower (body_text r))))
   \<and> (\<forall>d. status_code r = 200 \<and> json r = Inr (PDict d)
            \<and> \<not> py_eq_int (get_default d ''ret'' PNone) 1
            \<and> \<not> py_eq_int (get_default d ''code'' PNone) 0
            \<and> \<not> truthy (get_default d ''success'' PNone)
          \<longrightarrow> check_in_result name r
                = (Inr False,
                   [Print (CheckinFailedMsg name
                             (get_default d ''msg'' (PStr ''Unknown error'')))]))"
proof (intro conjI allI impI)
  show "fst (check_in_result name r) = Inr True \<longleftrightarrow>
      status_code r = 200
      \<and> (case json r of
            Inr result \<Rightarrow>
              (\<exists>d. result = PDict d
                  \<and> (py_eq_int (get_default d ''ret'' PNone) 1
                     \<or> py_eq_int (get_default d ''code'' PNone) 0
                     \<or> truthy (get_default d ''success'' PNone)))
          | Inl e \<Rightarrow>
              exc_class e = JSONDecodeError \<and> contains ''success'' (lower (body_text r)))"
  proof (cases "json r")
    case (Inl e)
    then show ?thesis by (simp add: check_in_result_def)
  next
    case (Inr result)
    show ?thesis
    proof (cases "\<exists>d. result = PDict d")
      case True
      then obtain d where "result = PDict d" by blast
      with Inr show ?thesis
        by (auto simp: check_in_result_def check_in_accepted_dict dict_get_def
                 split: bool.splits)
    next
      case False
      then obtain e where "check_in_accepted result = Inl e"
        using check_in_accepted_other by blast
      with Inr False show ?thesis by (simp add: check_in_result_def)
    qed
  qed
next
  fix d
  assume "status_code r = 200 \<and> json r = Inr (PDict d)
            \<and> \<not> py_eq_int (get_default d ''ret'' PNone) 1
            \<and> \<not> py_eq_int (get_default d ''code'' PNone) 0
            \<and> \<not> truthy (get_default d ''success'' PNone)"
  then show "check_in_result name r
                = (Inr False,
                   [Print (CheckinFailedMsg name
                             (get_default d ''msg'' (PStr ''Unknown error'')))])"
    by (simp add: check_in_result_def check_in_accepted_dict dict_get_def)
qed

lemma lower_Success: "lower ''Success!'' = ''success!''"
  by code_simp

theorem check_in_classification_witness:
  "fst (check_in_result ''1002'' sign_in_ok) = Inr True
   \<and> fst (check_in_result ''1002'' plain_success) = Inr True
   \<and> status_code already_signed = 200
   \<and> json already_signed = Inr (PDict [(''code'', PInt 1), (''msg'', PStr ''already signed'')])
   \<and> check_in_result ''1002'' already_signed
       = (Inr False, [Print (CheckinFailedMsg ''1002'' (PStr ''already signed''))])"
  using check_in_classification [of "''1002''" sign_in_ok]
        check_in_classification [of "''1002''" plain_success]
        check_in_classification [of "''1002''" already_signed]
  by (simp add: sign_in_ok_def plain_success_def already_signed_def get_default_def
                lower_Success)

text \<open>A body that decodes to a JSON array is not classified: \<^verbatim>\<open>result.get\<close> raises
  \<^verbatim>\<open>AttributeError\<close>, which leaves \<^verbatim>\<open>execute_check_in\<close>, and nothing is printed about
  a message.\<close>

theorem check_in_classification_counterexample:
  "status_code array_body = 200
   \<and> json array_body = Inr (PList [])
   \<and> check_in_result ''1002'' array_body
       = (Inl (Error AttributeError
                 (quoted ''list'' @ '' object has no attribute '' @ quoted ''get'')), [])"
  by (simp add: array_body_def check_in_result_def check_in_accepted_def bindE_def
                dict_get_def)

section \<open>The balance fetch does not decide the check-in\<close>

lemma direct_cookies: "parse_cookies (cookies direct_account) = [(''session'', PStr ''xyz'')]"
  by code_simp

lemma execute_check_in_trace:
  "\<exists>after. snd (execute_check_in en name p headers cs)
      = [Print (CheckinExecuting name), HttpPost (check_in_request p headers cs)] @ after"
  by (auto simp: execute_check_in_def Let_def split: sum.splits prod.splits)

text \<open>
  C8. Take an account that reaches the balance fetch: its provider is known, its cookies
  parse to a non-empty dictionary and \<^verbatim>\<open>prepare_cookies\<close> returns a non-empty session.
  When the provider needs a manual check-in and \<^verbatim>\<open>get_user_info\<close> returns a failure
  (whatever made it fail), \<^verbatim>\<open>check_in_account\<close> prints that no balance information was
  obtained and goes on to send the check-in POST. The success flag it returns is the one
  \<^verbatim>\<open>execute_check_in\<close> returns, together with the failed balance information; an
  exception of \<^verbatim>\<open>execute_check_in\<close> gives \<^verbatim>\<open>(False, None)\<close>.
\<close>

theorem failed_balance_fetch_not_terminal:
  assumes "get_provider en (provider account) = Some p"
    and "parse_cookies (cookies account) \<noteq> []"
    and "name = get_display_name en account idx"
    and "prepare_cookies en name p (parse_cookies (cookies account))
           = (Inr (Some all_cookies), tr)"
    and "all_cookies \<noteq> []"
    and "needs_manual_check_in p"
    and "get_user_info (http_get en (user_info_request p account all_cookies)) = Inr info"
    and "\<not> info_success info"
  shows "fst (check_in_account en account idx)
           = (case fst (execute_check_in en name p (session_headers p account) all_cookies) of
                Inr success \<Rightarrow> Inr (success, Some info)
              | Inl e \<Rightarrow> Inr (False, None))
       \<and> (\<exists>before after.
             snd (check_in_account en account idx)
               = before
                 @ [HttpGet (user_info_request p account all_cookies),
                    Print (NoBalanceInfo name),
                    Print (CheckinExecuting name),
                    HttpPost (check_in_request p (session_headers p account) all_cookies)]
                 @ after)"
proof -
  obtain res tr' where ex: "execute_check_in en name p (session_headers p account) all_cookies
                              = (res, tr')"
    by (cases "execute_check_in en name p (session_headers p account) all_cookies")
  obtain rest where tr': "tr' = [Print (CheckinExecuting name),
                                 HttpPost (check_in_request p (session_headers p account)
                                             all_cookies)] @ rest"
    using execute_check_in_trace [of en name p "session_headers p account" all_cookies] ex
    by auto
  have session: "check_in_session en account name p all_cookies
      = (case res of Inl e \<Rightarrow> Inl e | Inr success \<Rightarrow> Inr (success, Some info),
         [HttpGet (user_info_request p account all_cookies), Print (NoBalanceInfo name)] @ tr')"
    using assms(6,7,8) ex
    by (cases res) (simp_all add: check_in_session_def Let_def)
  let ?pre = "[Print (ProcessingStart name),
               Print (UsingProvider name (provider account) (domain p))] @ tr @ [ClientOpen]"
  let ?mid = "[HttpGet (user_info_request p account all_cookies),
               Print (NoBalanceInfo name),
               Print (CheckinExecuting name),
               HttpPost (check_in_request p (session_headers p account) all_cookies)]"
  show ?thesis
  proof (cases res)
    case (Inl e)
    have "check_in_account en account idx
            = (Inr (False, None),
               ?pre @ ?mid @ (rest @ [Print (CheckinException name e), ClientClose]))"
      using assms(1-5) session Inl tr' by (simp add: check_in_account_def Let_def)
    then show ?thesis using ex Inl by (simp only: fst_conv snd_conv sum.case) blast
  next
    case (Inr success)
    have "check_in_account en account idx
            = (Inr (success, Some info), ?pre @ ?mid @ (rest @ [ClientClose]))"
      using assms(1-5) session Inr tr' by (simp add: check_in_account_def Let_def)
    then show ?thesis using ex Inr by (simp only: fst_conv snd_conv sum.case) blast
  qed
qed

theorem failed_balance_fetch_not_terminal_witness:
  "get_provider (offline_env [direct_account]) (provider direct_account) = Some direct_provider
   \<and> prepare_cookies (offline_env [direct_account]) ''1002'' direct_provider
        (parse_cookies (cookies direct_account))
       = (Inr (Some [(''session'', PStr ''xyz'')]), [Print (WafNotRequired ''1002'')])
   \<and> needs_manual_check_in direct_provider
   \<and> get_user_info (http_get (offline_env [direct_account])
                       (user_info_request direct_provider direct_account
                          [(''session'', PStr ''xyz'')]))
       = Inr (Failure (ExceptionText ''[Errno 111] Connection refused while connecting to''))
   \<and> fst (execute_check_in (offline_env [direct_account]) ''1002'' direct_provider
             (session_headers direct_provider direct_account) [(''session'', PStr ''xyz'')])
       = Inr True
   \<and> fst (check_in_account (offline_env [direct_account]) direct_account 0)
       = Inr (True,
              Some (Failure (ExceptionText
                       ''[Errno 111] Connection refused while connecting to'')))"
proof -
  let ?en = "offline_env [direct_account]"
  have a: "get_provider ?en (provider direct_account) = Some direct_provider"
    by (simp add: offline_env_def example_env_def direct_account_def)
  have b: "parse_cookies (cookies direct_account) \<noteq> []"
    by (simp add: direct_cookies)
  have c: "''1002'' = get_display_name ?en direct_account 0"
    by (simp add: offline_env_def example_env_def direct_account_def)
  have d: "prepare_cookies ?en ''1002'' direct_provider (parse_cookies (cookies direct_account))
             = (Inr (Some [(''session'', PStr ''xyz'')]), [Print (WafNotRequired ''1002'')])"
    by (simp add: prepare_cookies_def direct_provider_def direct_cookies
                  merge_cookies_def dict_update_def)
  have e: "[(''session'', PStr ''xyz'')] \<noteq> []" by simp
  have f: "needs_manual_check_in direct_provider" by (simp add: direct_provider_def)
  have g: "get_user_info (http_get ?en (user_info_request direct_provider direct_account
                                          [(''session'', PStr ''xyz'')]))
             = Inr (Failure (ExceptionText
                      ''[Errno 111] Connection refused while connecting to''))"
    by (simp add: offline_env_def example_env_def get_user_info_def get_user_info_try_def
                  bindE_def connect_error_def)
  have h: "\<not> info_success (Failure (ExceptionText
                      ''[Errno 111] Connection refused while connecting to''))"
    by simp
  have i: "fst (execute_check_in ?en ''1002'' direct_provider
             (session_headers direct_provider direct_account) [(''session'', PStr ''xyz'')])
       = Inr True"
    by (simp add: execute_check_in_def Let_def offline_env_def example_env_def
                  check_in_result_def sign_in_ok_def check_in_accepted_def bindE_def
                  dict_get_def get_default_def)
  show ?thesis
    using failed_balance_fetch_not_terminal [OF a b c d e f g h] a d f g i
    by simp
qed

section \<open>Exceptions of the WAF phase\<close>

text \<open>
  C1. An account whose provider needs WAF cookies: the \<^verbatim>\<open>NameError\<close> raised while the
  browser launch is prepared leaves \<^verbatim>\<open>get_waf_cookies_with_playwright\<close>,
  \<^verbatim>\<open>prepare_cookies\<close> and \<^verbatim>\<open>check_in_account\<close>, none of which catches it there, and
  ends the loop of \<^verbatim>\<open>main\<close>: \<^verbatim>\<open>run_main\<close> prints it and exits with code 1, and the
  account that follows is never processed.
\<close>

theorem waf_account_aborts_run:
  "check_in_account (example_env [waf_account, direct_account]) waf_account 0
     = (Inl (Error NameError (''name '' @ quoted ''true'' @ '' is not defined'')),
        [Print (ProcessingStart ''1001''),
         Print (UsingProvider ''1001'' ''anyrouter'' ''https://anyrouter.top''),
         Print (WafStarting ''1001''), PlaywrightEnter, TempDirEnter, TempDirExit,
         PlaywrightExit])
   \<and> run_main (example_env [waf_account, direct_account])
     = (1,
        [Print SystemStart, Print TimeStamp,
         Print (ProcessingStart ''1001''),
         Print (UsingProvider ''1001'' ''anyrouter'' ''https://anyrouter.top''),
         Print (WafStarting ''1001''), PlaywrightEnter, TempDirEnter, TempDirExit,
         PlaywrightExit,
         Print (RunFailed (Error NameError
                             (''name '' @ quoted ''true'' @ '' is not defined'')))])"
proof -
  have one: "check_in_account (example_env [waf_account, direct_account]) waf_account 0
     = (Inl (Error NameError (''name '' @ quoted ''true'' @ '' is not defined'')),
        [Print (ProcessingStart ''1001''),
         Print (UsingProvider ''1001'' ''anyrouter'' ''https://anyrouter.top''),
         Print (WafStarting ''1001''), PlaywrightEnter, TempDirEnter, TempDirExit,
         PlaywrightExit])"
    by (simp add: check_in_account_def Let_def example_env_def waf_account_def
                  waf_provider_def prepare_cookies_def get_waf_cookies_with_playwright_def
                  launch_arguments_def)
  have accounts: "load_accounts_config (example_env [waf_account, direct_account])
                    = Some [waf_account, direct_account]"
    by (simp add: example_env_def)
  show ?thesis
    unfolding run_main_def main_def accounts
    by (simp add: one Let_def)
qed

text \<open>
  C3. An account whose provider needs WAF cookies, with a browser that would deliver only
  two of the three cookies: the missing name is never found out, because the
  \<^verbatim>\<open>NameError\<close> is raised before the browser is launched. WAF acquisition does not
  return \<^verbatim>\<open>None\<close> and \<^verbatim>\<open>check_in_account\<close> does not return \<^verbatim>\<open>(False, None)\<close>: the
  exception leaves all three functions.
\<close>

theorem missing_waf_cookie_raises:
  "harvest [(''acw_tc'', ''1''), (''cdn_sec_tc'', ''2'')]
     = [(''acw_tc'', PStr ''1''), (''cdn_sec_tc'', PStr ''2'')]
   \<and> browser_cookies (example_env [waf_account]) ''https://anyrouter.top/login''
     = Inr [(''acw_tc'', ''1''), (''cdn_sec_tc'', ''2'')]
   \<and> fst (get_waf_cookies_with_playwright (example_env [waf_account]) ''1001''
             ''https://anyrouter.top/login'')
     = Inl (Error NameError (''name '' @ quoted ''true'' @ '' is not defined''))
   \<and> fst (prepare_cookies (example_env [waf_account]) ''1001'' waf_provider
             [(''session'', PStr ''abc'')])
     = Inl (Error NameError (''name '' @ quoted ''true'' @ '' is not defined''))
   \<and> fst (check_in_account (example_env [waf_account]) waf_account 0)
     = Inl (Error NameError (''name '' @ quoted ''true'' @ '' is not defined''))"
  by (simp add: harvest_def waf_names_def check_in_account_def Let_def example_env_def
                waf_account_def waf_provider_def prepare_cookies_def
                get_waf_cookies_with_playwright_def launch_arguments_def)

section \<open>The state file\<close>



















end
